theory Spec2Isabelle
  imports Main "HOL-Library.Word"
begin

section \<open>JavaScript values used by the task application\<close>

subsection \<open>Strings\<close>

text \<open>
  A JavaScript string is a sequence of UTF-16 code units. Text typed by the user
  (the title of a task) can hold any code unit, so strings are lists of 16-bit
  words; \<open>ascii\<close> embeds a literal of the source.
\<close>

type_synonym jsstring = "16 word list"

definition ascii :: "string \<Rightarrow> jsstring" where
  "ascii s = map of_char s"

text \<open>
  \<open>String.prototype.trim\<close> removes leading and trailing white space and line
  terminators (ECMAScript, WhiteSpace and LineTerminator): TAB, LF, VT, FF, CR, SP,
  NBSP, U+1680, U+2000 to U+200A, U+2028, U+2029, U+202F, U+205F, U+3000 and U+FEFF.
\<close>

definition isWhiteSpace :: "16 word \<Rightarrow> bool" where
  "isWhiteSpace c \<longleftrightarrow>
     c = 0x0009 \<or> c = 0x000A \<or> c = 0x000B \<or> c = 0x000C \<or> c = 0x000D \<or>
     c = 0x0020 \<or> c = 0x00A0 \<or> c = 0x1680 \<or> (0x2000 \<le> c \<and> c \<le> 0x200A) \<or>
     c = 0x2028 \<or> c = 0x2029 \<or> c = 0x202F \<or> c = 0x205F \<or> c = 0x3000 \<or>
     c = 0xFEFF"

definition trim :: "jsstring \<Rightarrow> jsstring" where
  "trim s = rev (dropWhile isWhiteSpace (rev (dropWhile isWhiteSpace s)))"

text \<open>A title is blank when it is empty or holds white space only.\<close>

definition blank :: "jsstring \<Rightarrow> bool" where
  "blank s \<longleftrightarrow> list_all isWhiteSpace s"

text \<open>
  \<open>s.split(sep)\<close> for a separator of one code unit: the pieces of \<open>s\<close> between the
  occurrences of \<open>sep\<close>. The result always has a first element, which
  \<open>split_first\<close> (the source's \<open>split('T')[0]\<close>) reads.
\<close>

fun split :: "16 word \<Rightarrow> jsstring \<Rightarrow> jsstring list" where
  "split sep [] = [[]]"
| "split sep (c # cs) =
     (if c = sep then [] # split sep cs
      else (case split sep cs of
              [] \<Rightarrow> [[c]]
            | p # ps \<Rightarrow> (c # p) # ps))"

definition split_first :: "16 word \<Rightarrow> jsstring \<Rightarrow> jsstring" where
  "split_first sep s = (case split sep s of [] \<Rightarrow> [] | p # ps \<Rightarrow> p)"

text \<open>Decimal digits, zero padded to a fixed width, as \<open>toISOString\<close> prints them.\<close>

definition digit :: "nat \<Rightarrow> 16 word" where
  "digit n = 0x30 + of_nat n"

fun pad :: "nat \<Rightarrow> nat \<Rightarrow> jsstring" where
  "pad 0 n = []"
| "pad (Suc k) n = pad k (n div 10) @ [digit (n mod 10)]"

definition isDigit :: "16 word \<Rightarrow> bool" where
  "isDigit c \<longleftrightarrow> 0x30 \<le> c \<and> c \<le> 0x39"

text \<open>The form \<open>YYYY-MM-DD\<close>: ten code units, digits around two hyphens.\<close>

definition is_YYYY_MM_DD :: "jsstring \<Rightarrow> bool" where
  "is_YYYY_MM_DD s \<longleftrightarrow>
     (case s of
        [y1, y2, y3, y4, h1, m1, m2, h2, d1, d2] \<Rightarrow>
          isDigit y1 \<and> isDigit y2 \<and> isDigit y3 \<and> isDigit y4 \<and> h1 = 0x2D \<and>
          isDigit m1 \<and> isDigit m2 \<and> h2 = 0x2D \<and> isDigit d1 \<and> isDigit d2
      | _ \<Rightarrow> False)"

subsection \<open>Dates\<close>

text \<open>
  A \<open>Date\<close> holds a time value: a whole number of milliseconds since
  1970-01-01T00:00:00Z of magnitude at most 8.64e15, or NaN (an invalid date),
  here \<open>None\<close>. The functions below are the abstract operations of ECMAScript
  (section "Date Objects") that the source's calls to \<open>getDate\<close>, \<open>setDate\<close> and
  \<open>toISOString\<close> run. The local time zone adjustment is implementation-defined
  and is a parameter \<open>tza\<close>: \<open>tza t True\<close> is the offset in force at the UTC time
  \<open>t\<close>, \<open>tza t False\<close> the offset in force at the local time \<open>t\<close>.
\<close>

type_synonym date = "int option"
type_synonym localTZA = "int \<Rightarrow> bool \<Rightarrow> int"

definition msPerDay :: int where
  "msPerDay = 86400000"

definition Day :: "int \<Rightarrow> int" where
  "Day t = t div msPerDay"

definition TimeWithinDay :: "int \<Rightarrow> int" where
  "TimeWithinDay t = t mod msPerDay"

text \<open>
  The proleptic Gregorian calendar date of a day number (days since 1970-01-01):
  year, month (0 is January, as in ECMAScript) and day of the month. Days are
  counted from 0000-03-01 in eras of 400 years (146097 days), centuries (36524
  days), groups of four years (1461 days) and years (365 days); within a year that
  starts in March, the month comes from the day of the year.
\<close>

definition civil :: "int \<Rightarrow> int \<times> int \<times> int" where
  "civil z =
     (let s = z + 719468;
          era = s div 146097;
          doe = s mod 146097;
          c = min 3 (doe div 36524);
          r1 = doe - c * 36524;
          q = r1 div 1461;
          r2 = r1 mod 1461;
          a = min 3 (r2 div 365);
          doy = r2 - a * 365;
          mp = (5 * doy + 2) div 153;
          d = doy - (153 * mp + 2) div 5 + 1;
          m = (if mp < 10 then mp + 2 else mp - 10);
          y = 400 * era + 100 * c + 4 * q + a + (if m \<le> 1 then 1 else 0)
      in (y, m, d))"

definition YearFromTime :: "int \<Rightarrow> int" where
  "YearFromTime t = fst (civil (Day t))"

definition MonthFromTime :: "int \<Rightarrow> int" where
  "MonthFromTime t = fst (snd (civil (Day t)))"

definition DateFromTime :: "int \<Rightarrow> int" where
  "DateFromTime t = snd (snd (civil (Day t)))"

definition HourFromTime :: "int \<Rightarrow> int" where
  "HourFromTime t = (t div 3600000) mod 24"

definition MinFromTime :: "int \<Rightarrow> int" where
  "MinFromTime t = (t div 60000) mod 60"

definition SecFromTime :: "int \<Rightarrow> int" where
  "SecFromTime t = (t div 1000) mod 60"

definition msFromTime :: "int \<Rightarrow> int" where
  "msFromTime t = t mod 1000"

text \<open>The day number of the first day of a month of a year, plus \<open>date - 1\<close>.\<close>

definition MakeDay :: "int \<Rightarrow> int \<Rightarrow> int \<Rightarrow> int" where
  "MakeDay year month date =
     (let ym = year + month div 12;
          mn = month mod 12;
          y = (if mn \<le> 1 then ym - 1 else ym);
          mp = (if mn \<le> 1 then mn + 10 else mn - 2);
          era = y div 400;
          yoe = y mod 400;
          doe = yoe * 365 + yoe div 4 - yoe div 100 + (153 * mp + 2) div 5
      in era * 146097 + doe - 719468 + date - 1)"

definition MakeDate :: "int \<Rightarrow> int \<Rightarrow> int" where
  "MakeDate day time = day * msPerDay + time"

definition TimeClip :: "int \<Rightarrow> date" where
  "TimeClip t = (if \<bar>t\<bar> > 8640000000000000 then None else Some t)"

definition LocalTime :: "localTZA \<Rightarrow> int \<Rightarrow> int" where
  "LocalTime tza t = t + tza t True"

definition UTC :: "localTZA \<Rightarrow> int \<Rightarrow> int" where
  "UTC tza t = t - tza t False"

text \<open>\<open>getDate()\<close>: the day of the month in local time, NaN for an invalid date.\<close>

definition getDate :: "localTZA \<Rightarrow> date \<Rightarrow> int option" where
  "getDate tza d =
     (case d of None \<Rightarrow> None | Some t \<Rightarrow> Some (DateFromTime (LocalTime tza t)))"

text \<open>
  \<open>setDate(dt)\<close>: the new time value of the date. An invalid date stays invalid,
  and a NaN argument makes it invalid.
\<close>

definition setDate :: "localTZA \<Rightarrow> date \<Rightarrow> int option \<Rightarrow> date" where
  "setDate tza d dt =
     (case d of
        None \<Rightarrow> None
      | Some tv \<Rightarrow>
          (case dt of
             None \<Rightarrow> None
           | Some n \<Rightarrow>
               (let t = LocalTime tza tv;
                    newDate = MakeDate (MakeDay (YearFromTime t) (MonthFromTime t) n)
                                (TimeWithinDay t)
                in TimeClip (UTC tza newDate))))"

datatype error = NetworkError | HttpError nat | RangeError

text \<open>
  \<open>toISOString()\<close>: the UTC fields as \<open>YYYY-MM-DDTHH:mm:ss.sssZ\<close>; a year outside
  0 to 9999 is printed as a sign and six digits. An invalid date throws a
  RangeError.
\<close>

definition yearString :: "int \<Rightarrow> jsstring" where
  "yearString y =
     (if 0 \<le> y \<and> y \<le> 9999 then pad 4 (nat y)
      else (if y < 0 then ascii ''-'' else ascii ''+'') @ pad 6 (nat \<bar>y\<bar>))"

definition toISOString :: "date \<Rightarrow> error + jsstring" where
  "toISOString d =
     (case d of
        None \<Rightarrow> Inl RangeError
      | Some t \<Rightarrow>
          Inr (yearString (YearFromTime t) @ ascii ''-'' @
               pad 2 (nat (MonthFromTime t + 1)) @ ascii ''-'' @
               pad 2 (nat (DateFromTime t)) @ ascii ''T'' @
               pad 2 (nat (HourFromTime t)) @ ascii '':'' @
               pad 2 (nat (MinFromTime t)) @ ascii '':'' @
               pad 2 (nat (SecFromTime t)) @ ascii ''.'' @
               pad 3 (nat (msFromTime t)) @ ascii ''Z''))"


section \<open>The task application\<close>

subsection \<open>Data\<close>

text \<open>
  \<open>interface Task\<close> of App.tsx. The fields are \<open>id\<close>, \<open>title\<close>, \<open>description\<close>,
  \<open>status\<close> and \<open>dueDate\<close>; they carry the prefix \<open>task_\<close> here, since the payload
  of a creation request has fields of the same names.
\<close>

datatype status = Pending | Completed

record task =
  task_id :: jsstring
  task_title :: jsstring
  task_description :: jsstring
  task_status :: status
  task_dueDate :: "jsstring option"

text \<open>The argument of \<open>createTask\<close>, sent as the body of the POST request.\<close>

record payload =
  title :: jsstring
  description :: jsstring
  dueDate :: "jsstring option"

text \<open>
  A request made through the axios instance \<open>api\<close>: \<open>api.get(url)\<close>,
  \<open>api.post(url, data)\<close>, \<open>api.patch(url, {status})\<close>, \<open>api.delete(url)\<close>.
\<close>

datatype http_method = GET | POST | PATCH | DELETE

datatype body = NoBody | CreateBody payload | StatusBody status

record request =
  http_method :: http_method
  url :: jsstring
  body :: body

text \<open>
  What an awaited request settles with: the promise rejects with an error (a
  transport error or a response outside 2xx), or resolves with \<open>response.data\<close>,
  a sequence of tasks for \<open>GET /api/tasks\<close>, one task for \<open>GET /api/tasks/{id}\<close>,
  and data nobody reads for the writing requests.
\<close>

datatype data = Tasks "task list" | One task | Ignored

type_synonym reply = "error + data"

text \<open>
  The calls of \<open>Alert.alert\<close>, one constructor for each place of the source:
  the connection error of \<open>fetchTasks\<close>; the required title and the failed save
  of \<open>handleSave\<close>; the failed load of \<open>fetchDetail\<close>; the updated status and
  the failed update of \<open>handleToggleStatus\<close>; the confirmation dialog and the
  failed deletion of \<open>handleDelete\<close>; the notice of \<open>handleEdit\<close>.
\<close>

datatype alert =
    ConnectionError
  | TitleRequired
  | SaveFailed
  | DetailLoadFailed
  | StatusUpdated status
  | StatusUpdateFailed
  | ConfirmDelete
  | DeleteFailed
  | EditUndefined

datatype route = Home | AddTask | TaskDetail jsstring

datatype nav = GoBack | Navigate route

text \<open>
  An async function that waits for a request: what runs when the request
  settles. \<open>AwaitToggle\<close> holds the \<open>localTask\<close> and the \<open>newStatus\<close> that the
  closure of \<open>handleToggleStatus\<close> captured when the button was pressed.
\<close>

datatype awaiting =
    AwaitFetchTasks
  | AwaitSave
  | AwaitToggle task status
  | AwaitDelete
  | AwaitFetchDetail

text \<open>
  The state of the running application: the two state cells of \<open>TaskProvider\<close>
  (\<open>tasks\<close>, \<open>isLoading\<close>); the state of \<open>AddTaskScreen\<close> (\<open>title\<close>,
  \<open>description\<close>, \<open>dueDate\<close>, here with the prefix \<open>form_\<close>, and \<open>isSaving\<close>); the
  route parameter and the state of \<open>TaskDetailScreen\<close> (\<open>taskId\<close>, \<open>localTask\<close>,
  \<open>loading\<close>); and what the application has done to the outside, oldest first:
  the requests it has sent, the alerts it has shown, what it has written with
  \<open>console.error\<close>, its navigation calls, and the requests still in flight.
\<close>

record world =
  tasks :: "task list"
  isLoading :: bool
  form_title :: jsstring
  form_description :: jsstring
  form_dueDate :: date
  isSaving :: bool
  taskId :: jsstring
  localTask :: "task option"
  loading :: bool
  sent :: "request list"
  alerts :: "alert list"
  console :: "error list"
  navigation :: "nav list"
  inflight :: "awaiting list"

definition send :: "request \<Rightarrow> awaiting \<Rightarrow> world \<Rightarrow> world" where
  "send req k w = w\<lparr>sent := sent w @ [req], inflight := inflight w @ [k]\<rparr>"

definition alert :: "alert \<Rightarrow> world \<Rightarrow> world" where
  "alert a w = w\<lparr>alerts := alerts w @ [a]\<rparr>"

definition navigate :: "nav \<Rightarrow> world \<Rightarrow> world" where
  "navigate n w = w\<lparr>navigation := navigation w @ [n]\<rparr>"

subsection \<open>TaskProvider (App.tsx)\<close>

text \<open>
  \<open>fetchTasks\<close> runs up to its \<open>await\<close> when it is called, and from there when
  the request settles: \<open>fetchTasks_begin\<close> and \<open>fetchTasks_resume\<close>.
\<close>

definition fetchTasks_begin :: "world \<Rightarrow> world" where
  "fetchTasks_begin w =
     send \<lparr>http_method = GET, url = ascii ''/api/tasks'', body = NoBody\<rparr>
       AwaitFetchTasks (w\<lparr>isLoading := True\<rparr>)"

definition fetchTasks_resume :: "error + task list \<Rightarrow> world \<Rightarrow> world" where
  "fetchTasks_resume r w =
     (case r of
        Inr response_data \<Rightarrow> (w\<lparr>tasks := response_data\<rparr>)\<lparr>isLoading := False\<rparr>
      | Inl e \<Rightarrow>
          (alert ConnectionError (w\<lparr>console := console w @ [e]\<rparr>))\<lparr>isLoading := False\<rparr>)"

text \<open>
  The three writing operations wait for their request and then call
  \<open>fetchTasks()\<close> without waiting for it. The \<open>_begin\<close> part takes the
  continuation of the caller that awaits the operation; the \<open>_resume\<close> part
  returns what the caller's \<open>await\<close> sees, \<open>Inl\<close> when the promise rejects.
\<close>

definition createTask_begin :: "awaiting \<Rightarrow> payload \<Rightarrow> world \<Rightarrow> world" where
  "createTask_begin k data w =
     send \<lparr>http_method = POST, url = ascii ''/api/tasks'', body = CreateBody data\<rparr> k w"

definition createTask_resume :: "reply \<Rightarrow> world \<Rightarrow> (error + unit) \<times> world" where
  "createTask_resume r w =
     (case r of Inl e \<Rightarrow> (Inl e, w) | Inr _ \<Rightarrow> (Inr (), fetchTasks_begin w))"

definition updateTaskStatus_begin ::
    "awaiting \<Rightarrow> jsstring \<Rightarrow> status \<Rightarrow> world \<Rightarrow> world" where
  "updateTaskStatus_begin k tid st w =
     send \<lparr>http_method = PATCH, url = ascii ''/api/tasks/'' @ tid @ ascii ''/status'',
           body = StatusBody st\<rparr> k w"

definition updateTaskStatus_resume :: "reply \<Rightarrow> world \<Rightarrow> (error + unit) \<times> world" where
  "updateTaskStatus_resume r w =
     (case r of Inl e \<Rightarrow> (Inl e, w) | Inr _ \<Rightarrow> (Inr (), fetchTasks_begin w))"

definition deleteTask_begin :: "awaiting \<Rightarrow> jsstring \<Rightarrow> world \<Rightarrow> world" where
  "deleteTask_begin k tid w =
     send \<lparr>http_method = DELETE, url = ascii ''/api/tasks/'' @ tid, body = NoBody\<rparr> k w"

definition deleteTask_resume :: "reply \<Rightarrow> world \<Rightarrow> (error + unit) \<times> world" where
  "deleteTask_resume r w =
     (case r of Inl e \<Rightarrow> (Inl e, w) | Inr _ \<Rightarrow> (Inr (), fetchTasks_begin w))"

text \<open>\<open>tasks.find(t => t.id === taskId)\<close>: the first task of the cache with that id.\<close>

definition getTaskById :: "world \<Rightarrow> jsstring \<Rightarrow> task option" where
  "getTaskById w tid = find (\<lambda>t. task_id t = tid) (tasks w)"

text \<open>
  \<open>useTasks\<close>: \<open>React.useContext(TaskContext)\<close> is the value of the nearest
  \<open>TaskContext.Provider\<close> above the calling component, and the default of
  \<open>createContext\<close>, \<open>undefined\<close>, when there is none. \<open>TaskProvider\<close> is the one
  component that renders that provider, with an object of seven members as its
  value. The ancestors of a component are listed nearest first.
\<close>

record 'f TaskContextType =
  ctx_tasks :: "task list"
  ctx_fetchTasks :: 'f
  ctx_isLoading :: bool
  ctx_createTask :: 'f
  ctx_updateTaskStatus :: 'f
  ctx_deleteTask :: 'f
  ctx_getTaskById :: "jsstring \<Rightarrow> task option"

datatype 'f element = TaskProvider "'f TaskContextType" | Other

datatype js_error = Error string

fun useContext :: "'f element list \<Rightarrow> 'f TaskContextType option" where
  "useContext [] = None"
| "useContext (TaskProvider v # outer) = Some v"
| "useContext (Other # outer) = useContext outer"

definition useTasks :: "'f element list \<Rightarrow> js_error + 'f TaskContextType" where
  "useTasks ancestors =
     (case useContext ancestors of
        None \<Rightarrow> Inl (Error ''useTasks must be used within a TaskProvider'')
      | Some context \<Rightarrow> Inr context)"


subsection \<open>AddTaskScreen\<close>

text \<open>
  The default of the due date: \<open>new Date()\<close> is the current time \<open>now\<close>, and
  \<open>defaultDate.setDate(defaultDate.getDate() + 1)\<close> moves it by one day of the
  month.
\<close>

definition defaultDate :: "localTZA \<Rightarrow> int \<Rightarrow> date" where
  "defaultDate tza now =
     setDate tza (Some now) (map_option (\<lambda>n. n + 1) (getDate tza (Some now)))"

definition AddTaskScreen_mount :: "localTZA \<Rightarrow> int \<Rightarrow> world \<Rightarrow> world" where
  "AddTaskScreen_mount tza now w =
     w\<lparr>form_title := [], form_description := [],
       form_dueDate := defaultDate tza now, isSaving := False\<rparr>"

text \<open>
  \<open>handleSave\<close> up to \<open>await createTask(...)\<close>. The code unit 0x54 is the letter T.
  A \<open>RangeError\<close> of \<open>toISOString\<close> is thrown inside the \<open>try\<close> block and so
  reaches its \<open>catch\<close> and \<open>finally\<close>.
\<close>

definition handleSave_begin :: "world \<Rightarrow> world" where
  "handleSave_begin w =
     (if trim (form_title w) = [] then alert TitleRequired w
      else
        (let w1 = w\<lparr>isSaving := True\<rparr> in
         case toISOString (form_dueDate w1) of
           Inl e \<Rightarrow> (alert SaveFailed w1)\<lparr>isSaving := False\<rparr>
         | Inr isoString \<Rightarrow>
             (let dateToSend = split_first 0x54 isoString in
              createTask_begin AwaitSave
                \<lparr>title = form_title w1, description = form_description w1,
                 dueDate = Some dateToSend\<rparr> w1)))"

definition handleSave_resume :: "reply \<Rightarrow> world \<Rightarrow> world" where
  "handleSave_resume r w =
     (case createTask_resume r w of
        (Inr _, w') \<Rightarrow> (navigate GoBack w')\<lparr>isSaving := False\<rparr>
      | (Inl e, w') \<Rightarrow> (alert SaveFailed w')\<lparr>isSaving := False\<rparr>)"

subsection \<open>TaskDetailScreen\<close>

definition fetchDetail_begin :: "world \<Rightarrow> world" where
  "fetchDetail_begin w =
     send \<lparr>http_method = GET, url = ascii ''/api/tasks/'' @ taskId w, body = NoBody\<rparr>
       AwaitFetchDetail (w\<lparr>loading := True\<rparr>)"

definition fetchDetail_resume :: "error + task \<Rightarrow> world \<Rightarrow> world" where
  "fetchDetail_resume r w =
     (case r of
        Inr response_data \<Rightarrow> (w\<lparr>localTask := Some response_data\<rparr>)\<lparr>loading := False\<rparr>
      | Inl e \<Rightarrow> (navigate GoBack (alert DetailLoadFailed w))\<lparr>loading := False\<rparr>)"

text \<open>The screen starts with no local task, loading, and its effect calls \<open>fetchDetail\<close>.\<close>

definition TaskDetailScreen_mount :: "jsstring \<Rightarrow> world \<Rightarrow> world" where
  "TaskDetailScreen_mount tid w =
     fetchDetail_begin (w\<lparr>taskId := tid, localTask := None, loading := True\<rparr>)"

definition handleToggleStatus_begin :: "world \<Rightarrow> world" where
  "handleToggleStatus_begin w =
     (case localTask w of
        None \<Rightarrow> w
      | Some lt \<Rightarrow>
          (let newStatus = (if task_status lt = Completed then Pending else Completed)
           in updateTaskStatus_begin (AwaitToggle lt newStatus) (taskId w) newStatus w))"

definition handleToggleStatus_resume :: "task \<Rightarrow> status \<Rightarrow> reply \<Rightarrow> world \<Rightarrow> world" where
  "handleToggleStatus_resume lt newStatus r w =
     (case updateTaskStatus_resume r w of
        (Inr _, w') \<Rightarrow>
          alert (StatusUpdated newStatus)
            (w'\<lparr>localTask := Some (lt\<lparr>task_status := newStatus\<rparr>)\<rparr>)
      | (Inl e, w') \<Rightarrow> alert StatusUpdateFailed w')"

text \<open>
  \<open>handleDelete\<close> opens a dialog; the handler of its confirming button awaits
  \<open>deleteTask\<close>.
\<close>

definition handleDelete :: "world \<Rightarrow> world" where
  "handleDelete w = alert ConfirmDelete w"

definition confirmDelete_begin :: "world \<Rightarrow> world" where
  "confirmDelete_begin w = deleteTask_begin AwaitDelete (taskId w) w"

definition confirmDelete_resume :: "reply \<Rightarrow> world \<Rightarrow> world" where
  "confirmDelete_resume r w =
     (case deleteTask_resume r w of
        (Inr _, w') \<Rightarrow> navigate GoBack w'
      | (Inl e, w') \<Rightarrow> alert DeleteFailed w')"

definition handleEdit :: "world \<Rightarrow> world" where
  "handleEdit w = alert EditUndefined w"

subsection \<open>The running application\<close>

text \<open>
  What can happen to the application: the effect of \<open>TaskProvider\<close> after its
  first render; the pull to refresh, the press on a task card and the press on
  the floating button of \<open>HomeScreen\<close>; the back button of a header; the first
  render of \<open>AddTaskScreen\<close> (with the time zone and the clock of the device),
  the edits of its three fields and its save button, which is disabled while
  \<open>isSaving\<close>; the first render of \<open>TaskDetailScreen\<close> and its buttons, which are
  rendered only when it is not loading and has a local task; and a request in
  flight that settles.
\<close>

datatype event =
    AppMounted
  | Refresh
  | PressTask jsstring
  | PressAdd
  | PressBack
  | AddTaskMounted localTZA int
  | ChangeTitle jsstring
  | ChangeDescription jsstring
  | ConfirmDate date
  | PressSave
  | DetailMounted jsstring
  | PressToggle
  | PressDelete
  | PressConfirmDelete
  | PressEdit
  | Settle nat reply

text \<open>
  The server is taken to answer in the shapes of its interface: a sequence of
  tasks for \<open>GET /api/tasks\<close>, one task for \<open>GET /api/tasks/{id}\<close>. The state
  cells \<open>tasks\<close> and \<open>localTask\<close> are typed so in the source, and data of another
  shape, which the code would store in them unchecked, has no value there. A
  reply \<open>fits\<close> the request it answers when its data has the shape that the
  awaiting code reads; a reply that does not fit is no event of this model, and
  \<open>settle\<close> leaves the state as it is.
\<close>

fun fits :: "awaiting \<Rightarrow> reply \<Rightarrow> bool" where
  "fits AwaitFetchTasks (Inr (Tasks ts)) = True"
| "fits AwaitFetchTasks (Inr _) = False"
| "fits AwaitFetchDetail (Inr (One t)) = True"
| "fits AwaitFetchDetail (Inr _) = False"
| "fits _ _ = True"

fun resume :: "awaiting \<Rightarrow> reply \<Rightarrow> world \<Rightarrow> world" where
  "resume AwaitFetchTasks (Inl e) w = fetchTasks_resume (Inl e) w"
| "resume AwaitFetchTasks (Inr (Tasks ts)) w = fetchTasks_resume (Inr ts) w"
| "resume AwaitFetchTasks (Inr _) w = w"
| "resume AwaitSave r w = handleSave_resume r w"
| "resume (AwaitToggle lt newStatus) r w = handleToggleStatus_resume lt newStatus r w"
| "resume AwaitDelete r w = confirmDelete_resume r w"
| "resume AwaitFetchDetail (Inl e) w = fetchDetail_resume (Inl e) w"
| "resume AwaitFetchDetail (Inr (One t)) w = fetchDetail_resume (Inr t) w"
| "resume AwaitFetchDetail (Inr _) w = w"

definition settle :: "nat \<Rightarrow> reply \<Rightarrow> world \<Rightarrow> world" where
  "settle i r w =
     (if i < length (inflight w) \<and> fits (inflight w ! i) r
      then resume (inflight w ! i) r
             (w\<lparr>inflight := take i (inflight w) @ drop (Suc i) (inflight w)\<rparr>)
      else w)"

fun step :: "event \<Rightarrow> world \<Rightarrow> world" where
  "step AppMounted w = fetchTasks_begin w"
| "step Refresh w = fetchTasks_begin w"
| "step (PressTask tid) w = navigate (Navigate (TaskDetail tid)) w"
| "step PressAdd w = navigate (Navigate AddTask) w"
| "step PressBack w = navigate GoBack w"
| "step (AddTaskMounted tza now) w = AddTaskScreen_mount tza now w"
| "step (ChangeTitle s) w = w\<lparr>form_title := s\<rparr>"
| "step (ChangeDescription s) w = w\<lparr>form_description := s\<rparr>"
| "step (ConfirmDate d) w = w\<lparr>form_dueDate := d\<rparr>"
| "step PressSave w = (if isSaving w then w else handleSave_begin w)"
| "step (DetailMounted tid) w = TaskDetailScreen_mount tid w"
| "step PressToggle w =
     (if loading w \<or> localTask w = None then w else handleToggleStatus_begin w)"
| "step PressDelete w =
     (if loading w \<or> localTask w = None then w else handleDelete w)"
| "step PressConfirmDelete w = confirmDelete_begin w"
| "step PressEdit w =
     (if loading w \<or> localTask w = None then w else handleEdit w)"
| "step (Settle i r) w = settle i r w"

text \<open>The application before anything has happened, and a run of events from a state.\<close>

definition initial :: world where
  "initial =
     \<lparr>tasks = [], isLoading = False, form_title = [], form_description = [],
      form_dueDate = None, isSaving = False, taskId = [], localTask = None,
      loading = True, sent = [], alerts = [], console = [], navigation = [],
      inflight = []\<rparr>"

definition run :: "event list \<Rightarrow> world \<Rightarrow> world" where
  "run evs w = fold step evs w"

text \<open>
  An event resyncs the cache when it is the response of a \<open>fetchTasks\<close> call in
  flight that resolves. A run of events is quiet when none of its events, each in
  the state it meets, resyncs the cache.
\<close>

fun resyncs :: "event \<Rightarrow> world \<Rightarrow> bool" where
  "resyncs (Settle i (Inr (Tasks ts))) w \<longleftrightarrow>
     i < length (inflight w) \<and> inflight w ! i = AwaitFetchTasks"
| "resyncs _ w \<longleftrightarrow> False"

fun quiet :: "event list \<Rightarrow> world \<Rightarrow> bool" where
  "quiet [] w \<longleftrightarrow> True"
| "quiet (ev # evs) w \<longleftrightarrow> \<not> resyncs ev w \<and> quiet evs (step ev w)"


section \<open>Properties\<close>

subsection \<open>Strings and dates\<close>

text \<open>\<open>!title.trim()\<close> holds exactly for the blank titles.\<close>

lemma trim_empty_iff: "trim s = [] \<longleftrightarrow> blank s"
proof -
  have "trim s = [] \<longleftrightarrow> (\<forall>c \<in> set (dropWhile isWhiteSpace s). isWhiteSpace c)"
    by (simp add: trim_def dropWhile_eq_Nil_conv)
  also have "\<dots> \<longleftrightarrow> dropWhile isWhiteSpace s = []"
  proof
    assume all: "\<forall>c \<in> set (dropWhile isWhiteSpace s). isWhiteSpace c"
    show "dropWhile isWhiteSpace s = []"
    proof (rule ccontr)
      assume ne: "dropWhile isWhiteSpace s \<noteq> []"
      then have "\<not> isWhiteSpace (hd (dropWhile isWhiteSpace s))" by (rule hd_dropWhile)
      moreover have "hd (dropWhile isWhiteSpace s) \<in> set (dropWhile isWhiteSpace s)"
        using ne by simp
      ultimately show False using all by blast
    qed
  next
    assume e: "dropWhile isWhiteSpace s = []"
    show "\<forall>c \<in> set (dropWhile isWhiteSpace s). isWhiteSpace c" unfolding e by simp
  qed
  also have "\<dots> \<longleftrightarrow> blank s"
    by (simp add: blank_def dropWhile_eq_Nil_conv list_all_iff)
  finally show ?thesis .
qed

lemma split_first_append:
  "sep \<notin> set p \<Longrightarrow> split_first sep (p @ sep # rest) = p"
  by (induction p) (auto simp: split_first_def split: list.splits)

lemma digits_ok: "list_all (\<lambda>k. isDigit (digit k) \<and> digit k \<noteq> 0x54) [0..<10]"
  by code_simp
lemma isDigit_digit:
  assumes "n < 10" shows "isDigit (digit n)"
  using digits_ok assms by (simp add: list_all_iff)
lemma digit_not_T:
  assumes "n < 10" shows "digit n \<noteq> 0x54"
  using digits_ok assms by (simp add: list_all_iff)

lemma pad2: "pad 2 n = [digit (n div 10 mod 10), digit (n mod 10)]"
  by (simp add: numeral_2_eq_2)
lemma pad4:
  "pad 4 n = [digit (n div 1000 mod 10), digit (n div 100 mod 10),
              digit (n div 10 mod 10), digit (n mod 10)]"
proof -
  have "pad 4 n = pad (Suc (Suc (Suc (Suc 0)))) n" by (simp only: numeral_eq_Suc pred_numeral_simps Num.BitM.simps)
  also have "\<dots> = [digit (n div 10 div 10 div 10 mod 10), digit (n div 10 div 10 mod 10),
                    digit (n div 10 mod 10), digit (n mod 10)]" by (simp only: pad.simps append.simps)
  finally show ?thesis by (simp add: div_mult2_eq [symmetric])
qed

text \<open>
  The calendar date of a day number leads back to it: the day number of the first
  of its month, plus its day of the month less one, is the day number itself.
\<close>

lemma civil_MakeDay:
  "MakeDay (fst (civil z)) (fst (snd (civil z))) n = z - snd (snd (civil z)) + n"
proof -
  define s where "s = z + 719468"
  define era where "era = s div 146097"
  define doe where "doe = s mod 146097"
  define c where "c = min 3 (doe div 36524)"
  define r1 where "r1 = doe - c * 36524"
  define q where "q = r1 div 1461"
  define r2 where "r2 = r1 mod 1461"
  define a where "a = min 3 (r2 div 365)"
  define doy where "doy = r2 - a * 365"
  define mp where "mp = (5 * doy + 2) div 153"
  define d where "d = doy - (153 * mp + 2) div 5 + 1"
  define m where "m = (if mp < 10 then mp + 2 else mp - 10)"
  define y where "y = 400 * era + 100 * c + 4 * q + a + (if m \<le> 1 then 1 else 0)"
  have civ: "civil z = (y, m, d)"
    unfolding civil_def Let_def s_def era_def doe_def c_def r1_def q_def r2_def a_def
      doy_def mp_def d_def m_def y_def by (rule refl)
  have doe: "0 \<le> doe" "doe < 146097" by (simp_all add: doe_def)
  have c: "0 \<le> c" "c \<le> 3" using doe unfolding c_def by linarith+
  have r1: "0 \<le> r1" "r1 \<le> 36524" using doe unfolding r1_def c_def by linarith+
  have q: "0 \<le> q" "q \<le> 24" using r1 unfolding q_def by linarith+
  have r2: "0 \<le> r2" "r2 < 1461" by (simp_all add: r2_def)
  have r1q: "r1 = q * 1461 + r2" unfolding q_def r2_def by (rule div_mult_mod_eq [symmetric])
  have a: "0 \<le> a" "a \<le> 3" using r2 unfolding a_def by linarith+
  have doy: "0 \<le> doy" "doy \<le> 365" using r2 unfolding doy_def a_def by linarith+
  have mp: "0 \<le> mp" "mp \<le> 11" using doy unfolding mp_def by linarith+
  have m: "0 \<le> m" "m \<le> 11" using mp unfolding m_def by (simp_all split: if_splits)
  define y' where "y' = (if m \<le> 1 then y + m div 12 - 1 else y + m div 12)"
  define yoe where "yoe = 100 * c + 4 * q + a"
  have yoe: "0 \<le> yoe" "yoe < 400" using c q a unfolding yoe_def by linarith+
  have mdiv: "m div 12 = 0" "m mod 12 = m" using m by simp_all
  have y': "y' = era * 400 + yoe"
    unfolding y'_def y_def yoe_def mdiv by simp
  have mp': "(if m \<le> 1 then m + 10 else m - 2) = mp" using mp unfolding m_def by (simp split: if_splits)
  have ediv: "y' div 400 = era" using yoe unfolding y' by simp
  have emod: "y' mod 400 = yoe" using yoe unfolding y' by simp
  have y4: "yoe div 4 = 25 * c + q" using a unfolding yoe_def by linarith
  have y100: "yoe div 100 = c" using a q unfolding yoe_def by linarith
  have s: "s = era * 146097 + doe" unfolding era_def doe_def by simp
  have doe_eq: "doe = c * 36524 + q * 1461 + a * 365 + doy"
    using r1q unfolding r1_def doy_def by linarith
  have "MakeDay y m n = era * 146097 + (yoe * 365 + yoe div 4 - yoe div 100 + (153 * mp + 2) div 5) - 719468 + n - 1"
    unfolding MakeDay_def Let_def mdiv
    using mp' ediv emod unfolding y'_def mdiv by simp
  also have "\<dots> = z - d + n"
  proof -
    define k where "k = (153 * mp + 2) div 5"
    have "d = doy - k + 1" unfolding d_def k_def by (rule refl)
    moreover have "z = era * 146097 + doe - 719468" using s unfolding s_def by linarith
    ultimately show ?thesis
      unfolding y4 y100 k_def [symmetric] unfolding yoe_def using doe_eq by (simp add: algebra_simps)
  qed
  finally show ?thesis by (simp add: civ)
qed

text \<open>
  The default due date is the local time of the clock plus one day, taken back
  to UTC.
\<close>

lemma defaultDate_tomorrow:
  "defaultDate tza now = TimeClip (UTC tza (LocalTime tza now + msPerDay))"
proof -
  define t where "t = LocalTime tza now"
  have md: "MakeDay (YearFromTime t) (MonthFromTime t) (DateFromTime t + 1) = Day t + 1"
    unfolding YearFromTime_def MonthFromTime_def DateFromTime_def civil_MakeDay by simp
  have "Day t * msPerDay + TimeWithinDay t = t"
    unfolding Day_def TimeWithinDay_def by (rule div_mult_mod_eq)
  then have mk: "MakeDate (Day t + 1) (TimeWithinDay t) = t + msPerDay"
    unfolding MakeDate_def by (simp add: algebra_simps)
  show ?thesis
    unfolding defaultDate_def setDate_def getDate_def option.case option.map Let_def
      t_def [symmetric] md mk by (rule refl)
qed

subsection \<open>The cache of the store\<close>

lemmas store_defs =
  send_def alert_def navigate_def fetchTasks_begin_def fetchTasks_resume_def
  createTask_begin_def createTask_resume_def updateTaskStatus_begin_def
  updateTaskStatus_resume_def deleteTask_begin_def deleteTask_resume_def

lemmas screen_defs =
  AddTaskScreen_mount_def handleSave_begin_def handleSave_resume_def
  fetchDetail_begin_def fetchDetail_resume_def TaskDetailScreen_mount_def
  handleToggleStatus_begin_def handleToggleStatus_resume_def handleDelete_def
  confirmDelete_begin_def confirmDelete_resume_def handleEdit_def

lemma tasks_resume:
  "tasks (resume k r w) =
     (case k of
        AwaitFetchTasks \<Rightarrow> (case r of Inr (Tasks ts) \<Rightarrow> ts | _ \<Rightarrow> tasks w)
      | _ \<Rightarrow> tasks w)"
  by (cases k; cases r; (cases "projr r")?)
     (simp_all add: store_defs screen_defs split: sum.splits data.splits)

lemma tasks_settle:
  "tasks (settle i r w) =
     (if i < length (inflight w) \<and> inflight w ! i = AwaitFetchTasks
      then (case r of Inr (Tasks ts) \<Rightarrow> ts | _ \<Rightarrow> tasks w) else tasks w)"
  by (auto simp: settle_def tasks_resume split: awaiting.splits sum.splits data.splits)

lemma tasks_step:
  "tasks (step ev w) =
     (case ev of Settle i r \<Rightarrow> tasks (settle i r w) | _ \<Rightarrow> tasks w)"
  by (cases ev) (simp_all add: store_defs screen_defs Let_def split: option.splits sum.splits)


lemma tasks_step_no_resync:
  assumes "\<not> resyncs ev w"
  shows "tasks (step ev w) = tasks w"
  using assms tasks_step [of ev w]
  by (cases ev)
     (auto simp del: step.simps simp: tasks_settle split: sum.splits data.splits if_splits)

lemma tasks_run_quiet:
  assumes "quiet evs w"
  shows "tasks (run evs w) = tasks w"
  using assms
proof (induction evs arbitrary: w)
  case Nil
  then show ?case by (simp add: run_def)
next
  case (Cons ev evs)
  then have "tasks (run evs (step ev w)) = tasks (step ev w)" by simp
  moreover have "tasks (step ev w) = tasks w"
    using Cons.prems by (simp add: tasks_step_no_resync)
  ultimately show ?case by (simp add: run_def)
qed

text \<open>
  C1. When the request of a \<open>fetchTasks\<close> call resolves, the cached collection is
  from then on exactly the sequence of tasks of the response, same elements in the
  same order, whatever the cache held before; the request of the call is
  \<open>GET /api/tasks\<close>.
\<close>

theorem fetchTasks_success_replaces_cache:
  assumes "i < length (inflight w)" and "inflight w ! i = AwaitFetchTasks"
  shows "tasks (step (Settle i (Inr (Tasks ts))) w) = ts \<and>
         tasks (fetchTasks_resume (Inr ts) w) = ts \<and>
         sent (fetchTasks_begin w) =
           sent w @ [\<lparr>http_method = GET, url = ascii ''/api/tasks'', body = NoBody\<rparr>] \<and>
         inflight (fetchTasks_begin w) = inflight w @ [AwaitFetchTasks]"
  using assms by (simp add: tasks_settle store_defs)

theorem fetchTasks_success_replaces_cache_witness:
  "0 < length (inflight (step Refresh initial)) \<and>
   inflight (step Refresh initial) ! 0 = AwaitFetchTasks \<and>
   tasks (step (Settle 0 (Inr (Tasks
      [\<lparr>task_id = ascii ''2'', task_title = ascii ''B'', task_description = [],
        task_status = Completed, task_dueDate = None\<rparr>,
       \<lparr>task_id = ascii ''1'', task_title = ascii ''A'', task_description = [],
        task_status = Pending, task_dueDate = Some (ascii ''2026-01-01'')\<rparr>])))
     (step Refresh initial)) =
      [\<lparr>task_id = ascii ''2'', task_title = ascii ''B'', task_description = [],
        task_status = Completed, task_dueDate = None\<rparr>,
       \<lparr>task_id = ascii ''1'', task_title = ascii ''A'', task_description = [],
        task_status = Pending, task_dueDate = Some (ascii ''2026-01-01'')\<rparr>]"
proof -
  have h1: "0 < length (inflight (step Refresh initial))"
    by (simp add: initial_def store_defs)
  have h2: "inflight (step Refresh initial) ! 0 = AwaitFetchTasks"
    by (simp add: initial_def store_defs)
  show ?thesis
    using h1 h2 fetchTasks_success_replaces_cache [OF h1 h2] by simp
qed

text \<open>
  C3. When the request of a \<open>fetchTasks\<close> call fails, the call does not write the
  cached collection: it is after the failure what it was just before, the
  connection error is shown to the user, and the loading flag, set for the
  duration of the call, is false afterwards, as it is after a success. The call
  itself does not touch the cache when it starts, so the cache after the failure
  is the cache before the call whenever the events between the call and the
  failure are quiet, that is when no other \<open>fetchTasks\<close> response resolved
  meanwhile.
\<close>

theorem fetchTasks_failure_keeps_cache:
  assumes "i < length (inflight w)" and "inflight w ! i = AwaitFetchTasks"
  shows "tasks (step (Settle i (Inl e)) w) = tasks w \<and>
         alerts (step (Settle i (Inl e)) w) = alerts w @ [ConnectionError] \<and>
         \<not> isLoading (step (Settle i (Inl e)) w) \<and>
         \<not> isLoading (step (Settle i (Inr (Tasks ts))) w) \<and>
         tasks (fetchTasks_resume (Inl e) w) = tasks w \<and>
         alerts (fetchTasks_resume (Inl e) w) = alerts w @ [ConnectionError] \<and>
         \<not> isLoading (fetchTasks_resume r w) \<and>
         isLoading (fetchTasks_begin w0) \<and>
         tasks (fetchTasks_begin w0) = tasks w0 \<and>
         (w = run evs (fetchTasks_begin w0) \<and> quiet evs (fetchTasks_begin w0) \<longrightarrow>
            tasks (step (Settle i (Inl e)) w) = tasks w0)"
proof -
  have across: "tasks (step (Settle i (Inl e)) w) = tasks w"
    using assms by (simp add: settle_def store_defs)
  have "tasks (step (Settle i (Inl e)) w) = tasks w0"
    if "w = run evs (fetchTasks_begin w0)" and "quiet evs (fetchTasks_begin w0)"
  proof -
    have "tasks w = tasks (fetchTasks_begin w0)"
      using that by (simp add: tasks_run_quiet)
    also have "\<dots> = tasks w0" by (simp add: store_defs)
    finally show ?thesis using across by simp
  qed
  moreover have "alerts (step (Settle i (Inl e)) w) = alerts w @ [ConnectionError] \<and>
         \<not> isLoading (step (Settle i (Inl e)) w) \<and>
         \<not> isLoading (step (Settle i (Inr (Tasks ts))) w) \<and>
         tasks (fetchTasks_resume (Inl e) w) = tasks w \<and>
         alerts (fetchTasks_resume (Inl e) w) = alerts w @ [ConnectionError] \<and>
         \<not> isLoading (fetchTasks_resume r w) \<and>
         isLoading (fetchTasks_begin w0) \<and>
         tasks (fetchTasks_begin w0) = tasks w0"
    using assms by (simp add: settle_def store_defs split: sum.splits)
  ultimately show ?thesis using across by blast
qed

theorem fetchTasks_failure_keeps_cache_witness:
  "0 < length (inflight (run [PressAdd] (fetchTasks_begin (initial\<lparr>tasks :=
      [\<lparr>task_id = ascii ''1'', task_title = ascii ''A'', task_description = [],
        task_status = Pending, task_dueDate = None\<rparr>]\<rparr>)))) \<and>
   inflight (run [PressAdd] (fetchTasks_begin (initial\<lparr>tasks :=
      [\<lparr>task_id = ascii ''1'', task_title = ascii ''A'', task_description = [],
        task_status = Pending, task_dueDate = None\<rparr>]\<rparr>))) ! 0 = AwaitFetchTasks \<and>
   quiet [PressAdd] (fetchTasks_begin (initial\<lparr>tasks :=
      [\<lparr>task_id = ascii ''1'', task_title = ascii ''A'', task_description = [],
        task_status = Pending, task_dueDate = None\<rparr>]\<rparr>)) \<and>
   tasks (step (Settle 0 (Inl NetworkError)) (run [PressAdd] (fetchTasks_begin (initial\<lparr>tasks :=
      [\<lparr>task_id = ascii ''1'', task_title = ascii ''A'', task_description = [],
        task_status = Pending, task_dueDate = None\<rparr>]\<rparr>)))) =
      [\<lparr>task_id = ascii ''1'', task_title = ascii ''A'', task_description = [],
        task_status = Pending, task_dueDate = None\<rparr>] \<and>
   alerts (step (Settle 0 (Inl NetworkError)) (run [PressAdd] (fetchTasks_begin (initial\<lparr>tasks :=
      [\<lparr>task_id = ascii ''1'', task_title = ascii ''A'', task_description = [],
        task_status = Pending, task_dueDate = None\<rparr>]\<rparr>)))) = [ConnectionError] \<and>
   \<not> isLoading (step (Settle 0 (Inl NetworkError)) (run [PressAdd] (fetchTasks_begin
      (initial\<lparr>tasks :=
      [\<lparr>task_id = ascii ''1'', task_title = ascii ''A'', task_description = [],
        task_status = Pending, task_dueDate = None\<rparr>]\<rparr>))))"
proof -
  let ?start = "initial\<lparr>tasks :=
      [\<lparr>task_id = ascii ''1'', task_title = ascii ''A'', task_description = [],
        task_status = Pending, task_dueDate = None\<rparr>]\<rparr>"
  let ?w = "run [PressAdd] (fetchTasks_begin ?start)"
  have h1: "0 < length (inflight ?w)" by (simp add: run_def initial_def store_defs)
  have h2: "inflight ?w ! 0 = AwaitFetchTasks" by (simp add: run_def initial_def store_defs)
  have q: "quiet [PressAdd] (fetchTasks_begin ?start)" by simp
  have t: "tasks ?start = [\<lparr>task_id = ascii ''1'', task_title = ascii ''A'',
        task_description = [], task_status = Pending, task_dueDate = None\<rparr>]"
    by (simp add: initial_def)
  have a: "alerts ?w = []" by (simp add: run_def initial_def store_defs)
  note inst = fetchTasks_failure_keeps_cache [OF h1 h2, of NetworkError _ _ ?start "[PressAdd]"]
  from inst q have "tasks (step (Settle 0 (Inl NetworkError)) ?w) = tasks ?start" by blast
  moreover from inst have "alerts (step (Settle 0 (Inl NetworkError)) ?w) =
      alerts ?w @ [ConnectionError]" by blast
  moreover from inst have "\<not> isLoading (step (Settle 0 (Inl NetworkError)) ?w)" by blast
  ultimately show ?thesis using h1 h2 q t a by simp
qed

text \<open>
  Without that proviso the cache after a failed call need not be the cache before
  it. The application starts and fetches; the user pulls to refresh, with an
  empty cache; the first request resolves with one task; the request of the
  refresh fails. The connection error is shown, and the cache holds the one
  task, not the empty collection it held when the refresh was called.
\<close>

theorem fetchTasks_failure_after_other_resync_counterexample:
  "tasks (run [AppMounted] initial) = [] \<and>
   inflight (run [AppMounted, Refresh, Settle 0 (Inr (Tasks
      [\<lparr>task_id = ascii ''1'', task_title = ascii ''A'', task_description = [],
        task_status = Pending, task_dueDate = None\<rparr>]))] initial) = [AwaitFetchTasks] \<and>
   alerts (run [AppMounted, Refresh, Settle 0 (Inr (Tasks
      [\<lparr>task_id = ascii ''1'', task_title = ascii ''A'', task_description = [],
        task_status = Pending, task_dueDate = None\<rparr>])), Settle 0 (Inl NetworkError)] initial) =
     [ConnectionError] \<and>
   tasks (run [AppMounted, Refresh, Settle 0 (Inr (Tasks
      [\<lparr>task_id = ascii ''1'', task_title = ascii ''A'', task_description = [],
        task_status = Pending, task_dueDate = None\<rparr>])), Settle 0 (Inl NetworkError)] initial) \<noteq>
     tasks (run [AppMounted] initial)"
  by (simp add: run_def initial_def settle_def store_defs)

text \<open>
  C2. For each of \<open>createTask\<close>, \<open>updateTaskStatus\<close> and \<open>deleteTask\<close>: when its
  request fails, the caller receives that error and nothing has changed, the
  cache included; when it succeeds, the operation itself leaves the cache as it
  was and calls \<open>fetchTasks\<close>, whose response then replaces the whole cache.
  Sending the request does not touch the cache either.
\<close>

theorem mutation_resyncs_or_propagates:
  assumes "mutation \<in> {createTask_resume, updateTaskStatus_resume, deleteTask_resume}"
  shows "mutation (Inl e) w = (Inl e, w) \<and>
         fst (mutation (Inr d) w) = Inr () \<and>
         tasks (snd (mutation (Inr d) w)) = tasks w \<and>
         sent (snd (mutation (Inr d) w)) =
           sent w @ [\<lparr>http_method = GET, url = ascii ''/api/tasks'', body = NoBody\<rparr>] \<and>
         inflight (snd (mutation (Inr d) w)) = inflight w @ [AwaitFetchTasks] \<and>
         tasks (step (Settle (length (inflight w)) (Inr (Tasks ts)))
                  (snd (mutation (Inr d) w))) = ts \<and>
         tasks (createTask_begin k data w) = tasks w \<and>
         tasks (updateTaskStatus_begin k tid st w) = tasks w \<and>
         tasks (deleteTask_begin k tid w) = tasks w"
  using assms by (auto simp: store_defs settle_def)

theorem mutation_resyncs_or_propagates_witness:
  "createTask_resume \<in> {createTask_resume, updateTaskStatus_resume, deleteTask_resume} \<and>
   createTask_resume (Inl (HttpError 500)) initial = (Inl (HttpError 500), initial) \<and>
   fst (createTask_resume (Inr Ignored) initial) = Inr () \<and>
   tasks (step (Settle 0 (Inr (Tasks
      [\<lparr>task_id = ascii ''1'', task_title = ascii ''A'', task_description = [],
        task_status = Pending, task_dueDate = None\<rparr>])))
      (snd (createTask_resume (Inr Ignored) initial))) =
      [\<lparr>task_id = ascii ''1'', task_title = ascii ''A'', task_description = [],
        task_status = Pending, task_dueDate = None\<rparr>]"
proof -
  have h: "createTask_resume \<in> {createTask_resume, updateTaskStatus_resume, deleteTask_resume}"
    by simp
  have l: "length (inflight initial) = 0" by (simp add: initial_def)
  show ?thesis
    using h l mutation_resyncs_or_propagates [OF h, of "HttpError 500" initial Ignored] by simp
qed

text \<open>
  C4. \<open>getTaskById\<close> is a function of the cached collection and the id alone and
  returns a value only: absent exactly when no cached task has the id, and
  otherwise a cached task with that id.
\<close>

theorem getTaskById_pure_lookup:
  "(getTaskById w tid = None \<longleftrightarrow> tid \<notin> task_id ` set (tasks w)) \<and>
   (\<forall>t. getTaskById w tid = Some t \<longrightarrow> t \<in> set (tasks w) \<and> task_id t = tid) \<and>
   (tasks w' = tasks w \<longrightarrow> getTaskById w' tid = getTaskById w tid)"
  by (auto simp: getTaskById_def find_None_iff find_Some_iff)

theorem getTaskById_pure_lookup_witness:
  "getTaskById (initial\<lparr>tasks :=
      [\<lparr>task_id = ascii ''1'', task_title = ascii ''A'', task_description = [],
        task_status = Pending, task_dueDate = None\<rparr>]\<rparr>) (ascii ''1'') =
     Some \<lparr>task_id = ascii ''1'', task_title = ascii ''A'', task_description = [],
        task_status = Pending, task_dueDate = None\<rparr> \<and>
   getTaskById (initial\<lparr>tasks :=
      [\<lparr>task_id = ascii ''1'', task_title = ascii ''A'', task_description = [],
        task_status = Pending, task_dueDate = None\<rparr>]\<rparr>) (ascii ''2'') = None"
  using getTaskById_pure_lookup [of "initial\<lparr>tasks :=
      [\<lparr>task_id = ascii ''1'', task_title = ascii ''A'', task_description = [],
        task_status = Pending, task_dueDate = None\<rparr>]\<rparr>" "ascii ''2''"]
  by (simp add: getTaskById_def ascii_def)

subsection \<open>The context hook\<close>

text \<open>
  C9. \<open>useTasks\<close> throws the error \<open>useTasks must be used within a TaskProvider\<close>
  in a component with no \<open>TaskProvider\<close> above it, and returns the store object
  of a \<open>TaskProvider\<close> above it when there is one.
\<close>

theorem useTasks_requires_provider:
  "((\<forall>v. TaskProvider v \<notin> set ancestors) \<longrightarrow>
      useTasks ancestors = Inl (Error ''useTasks must be used within a TaskProvider'')) \<and>
   ((\<exists>v. TaskProvider v \<in> set ancestors) \<longrightarrow>
      (\<exists>context. useTasks ancestors = Inr context \<and> TaskProvider context \<in> set ancestors))"
proof (induction ancestors rule: useContext.induct)
  case 1
  show ?case by (simp add: useTasks_def)
next
  case (2 v outer)
  show ?case by (auto simp: useTasks_def)
next
  case (3 outer)
  then show ?case by (auto simp: useTasks_def)
qed

theorem useTasks_requires_provider_witness:
  "useTasks ([Other, Other] :: unit element list) =
     Inl (Error ''useTasks must be used within a TaskProvider'') \<and>
   (\<exists>context. useTasks [Other, TaskProvider
      \<lparr>ctx_tasks = [], ctx_fetchTasks = (), ctx_isLoading = False, ctx_createTask = (),
       ctx_updateTaskStatus = (), ctx_deleteTask = (), ctx_getTaskById = (\<lambda>tid. None)\<rparr>] =
      Inr context)"
  using useTasks_requires_provider [of "[Other, Other] :: unit element list"]
    useTasks_requires_provider [of "[Other, TaskProvider
      \<lparr>ctx_tasks = [], ctx_fetchTasks = (), ctx_isLoading = False, ctx_createTask = (),
       ctx_updateTaskStatus = (), ctx_deleteTask = (), ctx_getTaskById = (\<lambda>tid. None)\<rparr>]"]
  by simp

subsection \<open>The requests of the create screen\<close>

text \<open>
  What a step of the application adds to the requests it has sent: a resumed
  operation adds at most the \<open>GET /api/tasks\<close> of a resync, and \<open>handleSave\<close>
  adds at most one creation request, whose title is the title of the form, not
  blank, and whose due date is a string.
\<close>

lemma sent_resume:
  "sent (resume k r w) = sent w \<or>
   sent (resume k r w) =
     sent w @ [\<lparr>http_method = GET, url = ascii ''/api/tasks'', body = NoBody\<rparr>]"
  by (cases k; cases r; (cases "projr r")?)
     (simp_all add: store_defs screen_defs split: sum.splits data.splits)

lemma sent_settle:
  "sent (settle i r w) = sent w \<or>
   sent (settle i r w) =
     sent w @ [\<lparr>http_method = GET, url = ascii ''/api/tasks'', body = NoBody\<rparr>]"
  using sent_resume [of "inflight w ! i" r
      "w\<lparr>inflight := take i (inflight w) @ drop (Suc i) (inflight w)\<rparr>"]
  by (simp add: settle_def)

lemma sent_handleSave_begin:
  "sent (handleSave_begin w) = sent w \<or>
   (\<exists>s. \<not> blank (form_title w) \<and>
        sent (handleSave_begin w) =
          sent w @ [\<lparr>http_method = POST, url = ascii ''/api/tasks'',
                     body = CreateBody \<lparr>title = form_title w,
                       description = form_description w, dueDate = Some s\<rparr>\<rparr>])"
  by (simp add: handleSave_begin_def store_defs Let_def trim_empty_iff split: sum.splits)

lemma sent_step_payload:
  assumes "req \<in> set (sent (step ev w))" and "body req = CreateBody p"
  shows "req \<in> set (sent w) \<or> (\<not> blank (title p) \<and> dueDate p \<noteq> None)"
proof (cases ev)
  case PressSave
  then show ?thesis
    using assms sent_handleSave_begin [of w] by (auto split: if_splits)
next
  case (Settle i r)
  then show ?thesis
    using assms sent_settle [of i r w] by auto
qed (use assms in \<open>auto simp: store_defs screen_defs Let_def split: option.splits if_splits\<close>)

lemma sent_run_payload:
  assumes "\<forall>req \<in> set (sent w). \<forall>p. body req = CreateBody p \<longrightarrow>
             \<not> blank (title p) \<and> dueDate p \<noteq> None"
  shows "\<forall>req \<in> set (sent (run evs w)). \<forall>p. body req = CreateBody p \<longrightarrow>
             \<not> blank (title p) \<and> dueDate p \<noteq> None"
  using assms
proof (induction evs arbitrary: w)
  case Nil
  then show ?case by (simp add: run_def)
next
  case (Cons ev evs)
  have "\<forall>req \<in> set (sent (step ev w)). \<forall>p. body req = CreateBody p \<longrightarrow>
             \<not> blank (title p) \<and> dueDate p \<noteq> None"
    using Cons.prems sent_step_payload [of _ ev w] by blast
  then have "\<forall>req \<in> set (sent (run evs (step ev w))). \<forall>p. body req = CreateBody p \<longrightarrow>
             \<not> blank (title p) \<and> dueDate p \<noteq> None"
    by (rule Cons.IH)
  then show ?case by (simp add: run_def)
qed

lemma pad3: "pad 3 n = [digit (n div 100 mod 10), digit (n div 10 mod 10), digit (n mod 10)]"
proof -
  have "pad 3 n = pad (Suc (Suc (Suc 0))) n"
    by (simp only: numeral_eq_Suc pred_numeral_simps Num.BitM.simps)
  also have "\<dots> = [digit (n div 10 div 10 mod 10), digit (n div 10 mod 10), digit (n mod 10)]"
    by (simp only: pad.simps append.simps)
  finally show ?thesis by (simp add: div_mult2_eq [symmetric])
qed

lemma pad6:
  "pad 6 n = [digit (n div 100000 mod 10), digit (n div 10000 mod 10),
              digit (n div 1000 mod 10), digit (n div 100 mod 10),
              digit (n div 10 mod 10), digit (n mod 10)]"
proof -
  have "pad 6 n = pad (Suc (Suc (Suc (Suc (Suc (Suc 0)))))) n"
    by (simp only: numeral_eq_Suc pred_numeral_simps Num.BitM.simps)
  also have "\<dots> = [digit (n div 10 div 10 div 10 div 10 div 10 mod 10),
                    digit (n div 10 div 10 div 10 div 10 mod 10),
                    digit (n div 10 div 10 div 10 mod 10), digit (n div 10 div 10 mod 10),
                    digit (n div 10 mod 10), digit (n mod 10)]"
    by (simp only: pad.simps append.simps)
  finally show ?thesis by (simp add: div_mult2_eq [symmetric])
qed

lemmas date_eval =
  toISOString_def yearString_def YearFromTime_def MonthFromTime_def DateFromTime_def
  HourFromTime_def MinFromTime_def SecFromTime_def msFromTime_def civil_def Day_def
  msPerDay_def Let_def pad2 pad3 pad4 pad6 digit_def ascii_def

lemmas app_eval =
  handleSave_begin_def initial_def store_defs trim_def isWhiteSpace_def split_first_def
  run_def AddTaskScreen_mount_def defaultDate_def setDate_def getDate_def MakeDay_def
  MakeDate_def TimeWithinDay_def TimeClip_def UTC_def LocalTime_def

text \<open>
  C5. A press on the save button with a blank title, that is an empty title or
  one of white space only, shows the alert for the required title and does
  nothing else: no request is sent and none is in flight afterwards. Hence, in
  every run of the application from its start, no creation request with a blank
  title is ever sent.
\<close>

theorem blank_title_rejected_before_request:
  "(blank (form_title w) \<longrightarrow>
      handleSave_begin w = alert TitleRequired w \<and>
      sent (step PressSave w) = sent w \<and>
      inflight (step PressSave w) = inflight w) \<and>
   (\<forall>req \<in> set (sent (run evs initial)). \<forall>p. body req = CreateBody p \<longrightarrow>
      \<not> blank (title p))"
proof -
  have "\<forall>req \<in> set (sent initial). \<forall>p. body req = CreateBody p \<longrightarrow>
             \<not> blank (title p) \<and> dueDate p \<noteq> None"
    by (simp add: initial_def)
  from sent_run_payload [OF this, of evs] have "\<forall>req \<in> set (sent (run evs initial)).
      \<forall>p. body req = CreateBody p \<longrightarrow> \<not> blank (title p)"
    by blast
  moreover have "blank (form_title w) \<longrightarrow>
      handleSave_begin w = alert TitleRequired w \<and>
      sent (step PressSave w) = sent w \<and>
      inflight (step PressSave w) = inflight w"
    by (simp add: handleSave_begin_def trim_empty_iff alert_def)
  ultimately show ?thesis by blast
qed

theorem blank_title_rejected_before_request_witness:
  "blank (form_title (initial\<lparr>form_title := [0x20, 0x09]\<rparr>)) \<and>
   sent (step PressSave (initial\<lparr>form_title := [0x20, 0x09]\<rparr>)) = [] \<and>
   alerts (handleSave_begin (initial\<lparr>form_title := [0x20, 0x09]\<rparr>)) = [TitleRequired] \<and>
   \<lparr>http_method = POST, url = ascii ''/api/tasks'',
     body = CreateBody \<lparr>title = ascii ''A'', description = [],
       dueDate = Some (ascii ''1970-01-01'')\<rparr>\<rparr>
     \<in> set (sent (run [ChangeTitle (ascii ''A''), ConfirmDate (Some 0), PressSave] initial)) \<and>
   \<not> blank (ascii ''A'')"
proof -
  have b: "blank (form_title (initial\<lparr>form_title := [0x20, 0x09]\<rparr>))"
    by (simp add: blank_def isWhiteSpace_def)
  have s: "sent (initial\<lparr>form_title := [0x20, 0x09]\<rparr>) = []"
    and a: "alerts (initial\<lparr>form_title := [0x20, 0x09]\<rparr>) = []"
    by (simp_all add: initial_def)
  have r: "sent (run [ChangeTitle (ascii ''A''), ConfirmDate (Some 0), PressSave] initial) =
    [\<lparr>http_method = POST, url = ascii ''/api/tasks'',
      body = CreateBody \<lparr>title = ascii ''A'', description = [],
        dueDate = Some (ascii ''1970-01-01'')\<rparr>\<rparr>]"
    by (simp add: app_eval date_eval cong: let_weak_cong)
  show ?thesis
    using b s a r
      blank_title_rejected_before_request [of "initial\<lparr>form_title := [0x20, 0x09]\<rparr>"
        "[ChangeTitle (ascii ''A''), ConfirmDate (Some 0), PressSave]"]
    by (simp add: alert_def)
qed

text \<open>
  C10. The due date of the create screen starts as the local time of the clock
  plus one day, and in every run of the application from its start every
  creation request that is sent carries a due date that is a string, never
  \<open>null\<close>, although the type of the payload admits \<open>null\<close>.
\<close>

theorem create_screen_never_sends_null_dueDate:
  "form_dueDate (step (AddTaskMounted tza now) w) =
     TimeClip (UTC tza (LocalTime tza now + msPerDay)) \<and>
   (\<forall>req \<in> set (sent (run evs initial)). \<forall>p. body req = CreateBody p \<longrightarrow>
      dueDate p \<noteq> None)"
proof -
  have "\<forall>req \<in> set (sent initial). \<forall>p. body req = CreateBody p \<longrightarrow>
             \<not> blank (title p) \<and> dueDate p \<noteq> None"
    by (simp add: initial_def)
  from sent_run_payload [OF this, of evs] have "\<forall>req \<in> set (sent (run evs initial)).
      \<forall>p. body req = CreateBody p \<longrightarrow> dueDate p \<noteq> None"
    by blast
  moreover have "form_dueDate (step (AddTaskMounted tza now) w) =
     TimeClip (UTC tza (LocalTime tza now + msPerDay))"
    by (simp add: AddTaskScreen_mount_def defaultDate_tomorrow)
  ultimately show ?thesis by blast
qed

theorem create_screen_never_sends_null_dueDate_witness:
  "form_dueDate (step (AddTaskMounted (\<lambda>t u. 0) 0) initial) = Some 86400000 \<and>
   \<lparr>http_method = POST, url = ascii ''/api/tasks'',
     body = CreateBody \<lparr>title = ascii ''A'', description = [],
       dueDate = Some (ascii ''1970-01-02'')\<rparr>\<rparr>
     \<in> set (sent (run [AddTaskMounted (\<lambda>t u. 0) 0, ChangeTitle (ascii ''A''), PressSave]
                  initial)) \<and>
   dueDate \<lparr>title = ascii ''A'', description = [],
       dueDate = Some (ascii ''1970-01-02'')\<rparr> \<noteq> None"
proof -
  have r: "sent (run [AddTaskMounted (\<lambda>t u. 0) 0, ChangeTitle (ascii ''A''), PressSave]
                  initial) =
    [\<lparr>http_method = POST, url = ascii ''/api/tasks'',
      body = CreateBody \<lparr>title = ascii ''A'', description = [],
        dueDate = Some (ascii ''1970-01-02'')\<rparr>\<rparr>]"
    by (simp add: app_eval date_eval cong: let_weak_cong)
  show ?thesis
    using r create_screen_never_sends_null_dueDate [of "\<lambda>t u. 0" 0 initial
        "[AddTaskMounted (\<lambda>t u. 0) 0, ChangeTitle (ascii ''A''), PressSave]"]
    by (simp add: TimeClip_def UTC_def LocalTime_def msPerDay_def)
qed

text \<open>
  When the UTC year of the due date lies between 0 and 9999, the date that
  \<open>handleSave\<close> sends, the part of \<open>toISOString()\<close> before the letter T, has the
  form \<open>YYYY-MM-DD\<close>.
\<close>

lemma dateToSend_four_digit_year:
  assumes "0 \<le> YearFromTime t" and "YearFromTime t \<le> 9999"
  shows "\<exists>s. toISOString (Some t) = Inr s \<and> is_YYYY_MM_DD (split_first 0x54 s)"
proof -
  define y where "y = nat (YearFromTime t)"
  define m where "m = nat (MonthFromTime t + 1)"
  define d where "d = nat (DateFromTime t)"
  define p where "p = [digit (y div 1000 mod 10), digit (y div 100 mod 10),
      digit (y div 10 mod 10), digit (y mod 10), 0x2D,
      digit (m div 10 mod 10), digit (m mod 10), 0x2D,
      digit (d div 10 mod 10), digit (d mod 10)]"
  define rest where "rest = pad 2 (nat (HourFromTime t)) @ ascii '':'' @
      pad 2 (nat (MinFromTime t)) @ ascii '':'' @ pad 2 (nat (SecFromTime t)) @
      ascii ''.'' @ pad 3 (nat (msFromTime t)) @ ascii ''Z''"
  have dash: "ascii ''-'' = [0x2D]" and tee: "ascii ''T'' = [0x54]"
    by (simp_all add: ascii_def)
  have "toISOString (Some t) =
      Inr (pad 4 y @ ascii ''-'' @ pad 2 m @ ascii ''-'' @ pad 2 d @ ascii ''T'' @ rest)"
    using assms by (simp add: toISOString_def yearString_def y_def m_def d_def rest_def)
  moreover have "pad 4 y @ ascii ''-'' @ pad 2 m @ ascii ''-'' @ pad 2 d @ ascii ''T'' @ rest =
      p @ 0x54 # rest"
    by (simp add: pad2 pad4 dash tee p_def)
  ultimately have iso: "toISOString (Some t) = Inr (p @ 0x54 # rest)"
    by simp
  have dig: "\<And>n. digit (n mod 10) \<noteq> 0x54" "\<And>n. isDigit (digit (n mod 10))"
    by (simp_all add: digit_not_T isDigit_digit)
  have "0x54 \<notin> set p"
    using dig(1) by (auto simp: p_def)
  then have "split_first 0x54 (p @ 0x54 # rest) = p"
    by (rule split_first_append)
  moreover have "is_YYYY_MM_DD p"
    using dig(2) by (simp add: p_def is_YYYY_MM_DD_def)
  ultimately show ?thesis using iso by simp
qed

text \<open>
  C7. The due date of a creation request is meant to have the form
  \<open>YYYY-MM-DD\<close>. For the due date 10000-01-01T00:00:00Z, whose time value is
  253402300800000, \<open>toISOString()\<close> prints the year with a sign and six digits,
  and the request that \<open>handleSave\<close> sends carries the due date \<open>+010000-01-01\<close>,
  which does not have that form.
\<close>

theorem dueDate_of_year_10000_is_not_YYYY_MM_DD:
  "sent (step PressSave
      (initial\<lparr>form_title := ascii ''A'', form_dueDate := Some 253402300800000\<rparr>)) =
     [\<lparr>http_method = POST, url = ascii ''/api/tasks'',
       body = CreateBody \<lparr>title = ascii ''A'', description = [],
         dueDate = Some (ascii ''+010000-01-01'')\<rparr>\<rparr>] \<and>
   \<not> is_YYYY_MM_DD (ascii ''+010000-01-01'')"
  by (simp add: app_eval date_eval is_YYYY_MM_DD_def isDigit_def cong: let_weak_cong)

subsection \<open>Failures and navigation\<close>

text \<open>
  C6. When the request of \<open>fetchDetail\<close> fails, the detail screen shows the alert
  for the failed load, navigates back and stops loading. A failure of any other
  request in flight leaves the navigation as it was, and so does a press on the
  save button, whose failures (a blank title, a date that cannot be printed) are
  handled without navigation.
\<close>

theorem only_detail_fetch_failure_navigates:
  assumes "i < length (inflight w)"
  shows "navigation (step (Settle i (Inl e)) w) =
           navigation w @ (if inflight w ! i = AwaitFetchDetail then [GoBack] else []) \<and>
         (inflight w ! i = AwaitFetchDetail \<longrightarrow>
            alerts (step (Settle i (Inl e)) w) = alerts w @ [DetailLoadFailed] \<and>
            \<not> loading (step (Settle i (Inl e)) w)) \<and>
         navigation (fetchDetail_resume (Inl e) w) = navigation w @ [GoBack] \<and>
         alerts (fetchDetail_resume (Inl e) w) = alerts w @ [DetailLoadFailed] \<and>
         navigation (step PressSave w) = navigation w"
proof -
  have "navigation (step PressSave w) = navigation w"
    by (simp add: handleSave_begin_def store_defs Let_def split: sum.splits)
  moreover have "navigation (step (Settle i (Inl e)) w) =
           navigation w @ (if inflight w ! i = AwaitFetchDetail then [GoBack] else [])"
    using assms by (cases "inflight w ! i") (simp_all add: settle_def store_defs screen_defs)
  moreover have "inflight w ! i = AwaitFetchDetail \<longrightarrow>
            alerts (step (Settle i (Inl e)) w) = alerts w @ [DetailLoadFailed] \<and>
            \<not> loading (step (Settle i (Inl e)) w)"
    using assms by (simp add: settle_def store_defs screen_defs)
  moreover have "navigation (fetchDetail_resume (Inl e) w) = navigation w @ [GoBack] \<and>
         alerts (fetchDetail_resume (Inl e) w) = alerts w @ [DetailLoadFailed]"
    by (simp add: store_defs screen_defs)
  ultimately show ?thesis by blast
qed

theorem only_detail_fetch_failure_navigates_witness:
  "0 < length (inflight (step (DetailMounted (ascii ''7'')) initial)) \<and>
   inflight (step (DetailMounted (ascii ''7'')) initial) ! 0 = AwaitFetchDetail \<and>
   navigation (step (Settle 0 (Inl (HttpError 404)))
      (step (DetailMounted (ascii ''7'')) initial)) = [GoBack] \<and>
   alerts (step (Settle 0 (Inl (HttpError 404)))
      (step (DetailMounted (ascii ''7'')) initial)) = [DetailLoadFailed]"
proof -
  let ?w = "step (DetailMounted (ascii ''7'')) initial"
  have h: "0 < length (inflight ?w)" by (simp add: initial_def store_defs screen_defs)
  have k: "inflight ?w ! 0 = AwaitFetchDetail" by (simp add: initial_def store_defs screen_defs)
  have n: "navigation ?w = []" and a: "alerts ?w = []"
    by (simp_all add: initial_def store_defs screen_defs)
  show ?thesis
    using h k n a only_detail_fetch_failure_navigates [OF h, of "HttpError 404"] by simp
qed

subsection \<open>Who writes the cache\<close>

lemma inflight_settle_fetchTasks:
  assumes "i < length (inflight w)" and "inflight w ! i = AwaitFetchTasks"
  shows "inflight (settle i (Inr (Tasks ts)) w) =
           take i (inflight w) @ drop (Suc i) (inflight w)"
  using assms by (simp add: settle_def store_defs)

text \<open>
  C8. A step of the application changes the cached collection only when it is the
  response of a \<open>fetchTasks\<close> call in flight that resolves, and then the cache is
  that response; no press, no mount and no other response writes it. When two
  \<open>fetchTasks\<close> calls are in flight and both resolve, in either order, the cache
  is the response that resolved last.
\<close>

theorem cache_written_only_by_resync:
  "(tasks (step ev w) \<noteq> tasks w \<longrightarrow>
      (\<exists>i ts. ev = Settle i (Inr (Tasks ts)) \<and> i < length (inflight w) \<and>
         inflight w ! i = AwaitFetchTasks \<and> tasks (step ev w) = ts)) \<and>
   (i < j \<and> j < length (inflight w) \<and> inflight w ! i = AwaitFetchTasks \<and>
    inflight w ! j = AwaitFetchTasks \<longrightarrow>
      tasks (step (Settle i (Inr (Tasks late))) (step (Settle j (Inr (Tasks early))) w)) = late \<and>
      tasks (step (Settle (j - 1) (Inr (Tasks late))) (step (Settle i (Inr (Tasks early))) w)) =
        late)"
proof -
  have one: "tasks (step ev w) \<noteq> tasks w \<longrightarrow>
      (\<exists>i ts. ev = Settle i (Inr (Tasks ts)) \<and> i < length (inflight w) \<and>
         inflight w ! i = AwaitFetchTasks \<and> tasks (step ev w) = ts)"
    using tasks_step [of ev w]
    by (cases ev)
       (auto simp del: step.simps simp: tasks_settle split: sum.splits data.splits if_splits)
  have two: "tasks (step (Settle i (Inr (Tasks late))) (step (Settle j (Inr (Tasks early))) w)) = late \<and>
      tasks (step (Settle (j - 1) (Inr (Tasks late))) (step (Settle i (Inr (Tasks early))) w)) =
        late"
    if h: "i < j" "j < length (inflight w)" "inflight w ! i = AwaitFetchTasks"
      "inflight w ! j = AwaitFetchTasks"
  proof -
    have il: "i < length (inflight w)" using h by simp
    have a: "inflight (settle j (Inr (Tasks early)) w) =
        take j (inflight w) @ drop (Suc j) (inflight w)"
      using h by (simp add: inflight_settle_fetchTasks)
    have b: "inflight (settle i (Inr (Tasks early)) w) =
        take i (inflight w) @ drop (Suc i) (inflight w)"
      using h il by (simp add: inflight_settle_fetchTasks)
    have a1: "i < length (inflight (settle j (Inr (Tasks early)) w))"
      and a2: "inflight (settle j (Inr (Tasks early)) w) ! i = AwaitFetchTasks"
      using h by (simp_all add: a nth_append)
    have b1: "j - 1 < length (inflight (settle i (Inr (Tasks early)) w))"
      and b2: "inflight (settle i (Inr (Tasks early)) w) ! (j - 1) = AwaitFetchTasks"
    proof -
      have x: "\<not> j - 1 < i" and y: "Suc i + (j - 1 - i) = j" and z: "j - 1 < length (inflight w) - 1"
        using h by arith+
      show "j - 1 < length (inflight (settle i (Inr (Tasks early)) w))"
        using h z by (simp add: b min_def)
      show "inflight (settle i (Inr (Tasks early)) w) ! (j - 1) = AwaitFetchTasks"
        using h x y il by (simp add: b nth_append min_def)
    qed
    show ?thesis
      using a1 a2 b1 b2 by (simp add: tasks_settle)
  qed
  show ?thesis using one two by blast
qed

theorem cache_written_only_by_resync_witness:
  "0 < (1::nat) \<and> 1 < length (inflight (step Refresh (step Refresh initial))) \<and>
   inflight (step Refresh (step Refresh initial)) ! 0 = AwaitFetchTasks \<and>
   inflight (step Refresh (step Refresh initial)) ! 1 = AwaitFetchTasks \<and>
   tasks (step (Settle 0 (Inr (Tasks
       [\<lparr>task_id = ascii ''1'', task_title = ascii ''A'', task_description = [],
         task_status = Completed, task_dueDate = None\<rparr>])))
     (step (Settle 1 (Inr (Tasks [])))
       (step Refresh (step Refresh initial)))) =
       [\<lparr>task_id = ascii ''1'', task_title = ascii ''A'', task_description = [],
         task_status = Completed, task_dueDate = None\<rparr>] \<and>
   tasks (step (Settle 0 (Inr (Tasks
       [\<lparr>task_id = ascii ''1'', task_title = ascii ''A'', task_description = [],
         task_status = Completed, task_dueDate = None\<rparr>])))
     (step Refresh (step Refresh initial))) \<noteq> tasks (step Refresh (step Refresh initial))"
proof -
  let ?w = "step Refresh (step Refresh initial)"
  let ?late = "[\<lparr>task_id = ascii ''1'', task_title = ascii ''A'', task_description = [],
         task_status = Completed, task_dueDate = None\<rparr>]"
  have h: "1 < length (inflight ?w)" "inflight ?w ! 0 = AwaitFetchTasks"
    "inflight ?w ! 1 = AwaitFetchTasks"
    by (simp_all add: initial_def store_defs)
  have t: "tasks ?w = []"
    by (simp add: initial_def store_defs)
  have e: "tasks (step (Settle 0 (Inr (Tasks ?late))) ?w) = ?late"
    by (simp add: initial_def store_defs settle_def)
  have "(0::nat) < 1 \<and> 1 < length (inflight ?w) \<and> inflight ?w ! 0 = AwaitFetchTasks \<and>
    inflight ?w ! 1 = AwaitFetchTasks \<longrightarrow>
      tasks (step (Settle 0 (Inr (Tasks ?late))) (step (Settle 1 (Inr (Tasks []))) ?w)) = ?late \<and>
      tasks (step (Settle (1 - 1) (Inr (Tasks ?late))) (step (Settle 0 (Inr (Tasks []))) ?w)) =
        ?late"
    using cache_written_only_by_resync [of "Settle 0 (Inr (Tasks ?late))" ?w 0 1 ?late "[]"]
    by (rule conjunct2)
  with h have "tasks (step (Settle 0 (Inr (Tasks ?late)))
      (step (Settle 1 (Inr (Tasks []))) ?w)) = ?late"
    by blast
  moreover have "tasks (step (Settle 0 (Inr (Tasks ?late))) ?w) \<noteq> tasks ?w"
    unfolding e t by simp
  ultimately show ?thesis using h by simp
qed

end
